theory Spec2Isabelle
  imports Complex_Main "HOL-Library.Product_Lexorder"
begin

section \<open>Thermal monitor (orchestrator/thermal.py)\<close>

text \<open>
  The enum \<open>ThermalState\<close> and the fields of \<open>ThermalMonitor\<close> that the state
  machine reads and writes. Temperatures are Python floats obtained as an integer
  number of millidegrees divided by 1000; the state machine only compares them with
  the thresholds, so they are modelled as reals. \<open>callback_log\<close> records, in order,
  every state for which \<open>_trigger_callbacks\<close> was invoked.
\<close>

datatype ThermalState = NORMAL | WARNING | CRITICAL | COOLDOWN

record ThermalMonitor =
  warning_temp :: real
  critical_temp :: real
  cooldown_temp :: real
  state :: ThermalState
  callback_log :: "ThermalState list"

definition ThermalMonitor_init :: "real \<Rightarrow> real \<Rightarrow> real \<Rightarrow> ThermalMonitor" where
  "ThermalMonitor_init w c d =
     \<lparr>warning_temp = w, critical_temp = c, cooldown_temp = d,
      state = NORMAL, callback_log = []\<rparr>"

definition trigger_callbacks :: "ThermalState \<Rightarrow> ThermalMonitor \<Rightarrow> ThermalMonitor" where
  "trigger_callbacks s m = m\<lparr>callback_log := callback_log m @ [s]\<rparr>"

text \<open>
  \<open>ThermalMonitor._update_state\<close>: the \<open>if\<close>/\<open>elif\<close> chain in the order of the
  source, then the callbacks when the state changed.
\<close>

definition next_state :: "ThermalMonitor \<Rightarrow> real \<Rightarrow> ThermalState" where
  "next_state m max_temp =
     (if state m = COOLDOWN then
        (if max_temp < cooldown_temp m then NORMAL else state m)
      else if max_temp \<ge> critical_temp m then CRITICAL
      else if max_temp \<ge> warning_temp m then WARNING
      else NORMAL)"

definition update_state :: "ThermalMonitor \<Rightarrow> real \<Rightarrow> ThermalMonitor" where
  "update_state m max_temp =
     (let old_state = state m;
          m' = m\<lparr>state := next_state m max_temp\<rparr>
      in if old_state \<noteq> state m' then trigger_callbacks (state m') m' else m')"

text \<open>\<open>ThermalMonitor.trigger_cooldown\<close>.\<close>

definition trigger_cooldown :: "ThermalMonitor \<Rightarrow> ThermalMonitor" where
  "trigger_cooldown m = trigger_callbacks COOLDOWN (m\<lparr>state := COOLDOWN\<rparr>)"

text \<open>\<open>ThermalMonitor.should_throttle\<close>.\<close>

definition should_throttle :: "ThermalMonitor \<Rightarrow> bool" where
  "should_throttle m = (state m \<in> set [CRITICAL, COOLDOWN])"

text \<open>The sampler applies \<open>_update_state\<close> to each sample's maximum in turn.\<close>

fun monitor_samples :: "ThermalMonitor \<Rightarrow> real list \<Rightarrow> ThermalMonitor" where
  "monitor_samples m [] = m"
| "monitor_samples m (t # ts) = monitor_samples (update_state m t) ts"


section \<open>Context and side-effect store (database/db.py)\<close>

text \<open>
  Exceptions are values. \<open>StoreError\<close> stands for any exception raised by the
  embedded database engine (I/O, constraint violation, parameter binding).
\<close>

datatype error =
    TimeoutError
  | RuntimeError string
  | StoreError
  | TypeError
  | AttributeError
  | KeyError

text \<open>
  Python values that reach the store through keyword arguments decoded from JSON
  (and \<open>datetime\<close>, the type \<open>create_reminder\<close> declares for \<open>due_date\<close>).
\<close>

datatype pyval =
    PNone | PBool bool | PInt int | PFloat real | PStr string
  | PDatetime string | PList | PDict

text \<open>
  A row of table \<open>messages\<close>. The INSERT of \<open>add_message\<close> supplies four columns;
  the row id and the timestamp come from the schema's column defaults. The schema file
  is not part of the sources, so the timestamp a row receives is a parameter of
  \<open>add_message\<close> here, a natural number of which only the order matters.
\<close>

record message_row =
  msg_id :: nat
  msg_user_id :: string
  msg_session_id :: "string option"
  msg_role :: string
  msg_content :: string
  msg_timestamp :: nat

record reminder_row =
  rem_id :: nat
  rem_user_id :: string
  rem_title :: pyval
  rem_description :: pyval
  rem_due_date :: string
  rem_recurring :: pyval

text \<open>The dictionary \<open>get_user_context\<close> builds for each row: three fixed keys.\<close>

record ctx_message =
  role :: string
  content :: string
  timestamp :: nat

text \<open>Both tables hold their rows in insertion order.\<close>

record Database =
  messages :: "message_row list"
  reminders :: "reminder_row list"

definition next_msg_id :: "message_row list \<Rightarrow> nat" where
  "next_msg_id tbl = Suc (fold max (map msg_id tbl) 0)"

definition next_rem_id :: "reminder_row list \<Rightarrow> nat" where
  "next_rem_id tbl = Suc (fold max (map rem_id tbl) 0)"

text \<open>
  The query of \<open>get_user_context\<close>:
  \<^verbatim>\<open>SELECT role, content, timestamp FROM messages WHERE user_id = ?
  ORDER BY timestamp DESC LIMIT ?\<close>.
  SQL fixes the order of the result by the timestamp only; in which order rows of equal
  timestamp come out is the engine's choice (it depends on the access path it takes).
  That choice is the parameter \<open>tie\<close>: among rows of equal timestamp, the row of
  smaller \<open>tie\<close> comes out first. A negative LIMIT means no limit.
\<close>

definition order_by_timestamp_desc :: "(message_row \<Rightarrow> int) \<Rightarrow> message_row list \<Rightarrow> message_row list" where
  "order_by_timestamp_desc tie rows = sort_key (\<lambda>r. (- int (msg_timestamp r), tie r)) rows"

definition sql_limit :: "int \<Rightarrow> 'a list \<Rightarrow> 'a list" where
  "sql_limit k rows = (if k < 0 then rows else take (nat k) rows)"

definition select_context_rows :: "(message_row \<Rightarrow> int) \<Rightarrow> message_row list \<Rightarrow> string \<Rightarrow> int \<Rightarrow> message_row list" where
  "select_context_rows tie tbl uid max_messages =
     sql_limit max_messages
       (order_by_timestamp_desc tie (filter (\<lambda>r. msg_user_id r = uid) tbl))"

definition row_dict :: "message_row \<Rightarrow> ctx_message" where
  "row_dict r = \<lparr>role = msg_role r, content = msg_content r, timestamp = msg_timestamp r\<rparr>"

text \<open>
  \<open>Database.get_user_context\<close>: the rows of the query, reversed. \<open>fault\<close> is the
  exception the engine raises on this call, if any.
\<close>

definition get_user_context ::
  "error option \<Rightarrow> (message_row \<Rightarrow> int) \<Rightarrow> Database \<Rightarrow> string \<Rightarrow> int \<Rightarrow> error + ctx_message list" where
  "get_user_context fault tie db uid max_messages =
     (case fault of
        Some err \<Rightarrow> Inl err
      | None \<Rightarrow>
          (let rows = select_context_rows tie (messages db) uid max_messages
           in Inr (map row_dict (rev rows))))"

text \<open>\<open>Database.add_message\<close>; \<open>ts\<close> is the timestamp the column default assigns.\<close>

definition add_message ::
  "error option \<Rightarrow> nat \<Rightarrow> Database \<Rightarrow> string \<Rightarrow> string \<Rightarrow> string \<Rightarrow> string option \<Rightarrow> error + Database" where
  "add_message fault ts db uid rl txt sid =
     (case fault of
        Some err \<Rightarrow> Inl err
      | None \<Rightarrow>
          Inr (db\<lparr>messages := messages db @
                 [\<lparr>msg_id = next_msg_id (messages db), msg_user_id = uid,
                   msg_session_id = sid, msg_role = rl, msg_content = txt,
                   msg_timestamp = ts\<rparr>]\<rparr>))"

text \<open>
  \<open>Database.create_reminder\<close>. \<open>due_date.isoformat()\<close> is evaluated before the
  INSERT runs and exists on \<open>datetime\<close> values only; the engine cannot bind a list
  or a dictionary as a parameter.
\<close>

definition bindable :: "pyval \<Rightarrow> bool" where
  "bindable v = (v \<noteq> PList \<and> v \<noteq> PDict)"

definition create_reminder ::
  "error option \<Rightarrow> Database \<Rightarrow> string \<Rightarrow> pyval \<Rightarrow> pyval \<Rightarrow> pyval \<Rightarrow> pyval \<Rightarrow> error + (nat \<times> Database)" where
  "create_reminder fault db uid title due_date description recurring =
     (case due_date of
        PDatetime isoformat \<Rightarrow>
          (if \<not> (bindable title \<and> bindable description \<and> bindable recurring)
           then Inl StoreError
           else case fault of
             Some err \<Rightarrow> Inl err
           | None \<Rightarrow>
               (let reminder_id = next_rem_id (reminders db)
                in Inr (reminder_id,
                        db\<lparr>reminders := reminders db @
                          [\<lparr>rem_id = reminder_id, rem_user_id = uid, rem_title = title,
                            rem_description = description, rem_due_date = isoformat,
                            rem_recurring = recurring\<rparr>]\<rparr>)))
      | _ \<Rightarrow> Inl AttributeError)"


section \<open>Pipeline coordinator (orchestrator/pipeline.py)\<close>

datatype service = Asr | Llm | Tts

datatype log_level = LDebug | LInfo | LWarning | LError

text \<open>A function call as the LLM worker returns it; a key may be absent.\<close>

record function_call =
  fc_name :: "string option"
  fc_arguments :: "(string \<times> pyval) list option"

text \<open>
  The \<open>result\<close> dictionary of a worker's response, read by the coordinator with
  \<open>.get\<close>: each key may be absent.
\<close>

record ipc_result =
  res_text :: "string option"
  res_function_calls :: "function_call list option"
  res_tokens :: "int option"
  res_audio_data :: "string option"

text \<open>The \<open>data\<close> argument of the three \<open>call_service\<close> calls of the pipeline.\<close>

record llm_request =
  req_prompt :: string
  req_context :: "ctx_message list"
  req_max_tokens :: int
  req_user_id :: string

datatype ipc_data = AsrData string | LlmData llm_request | TtsData string

record Settings =
  asr_timeout_seconds :: real
  llm_max_tokens :: int
  llm_timeout_seconds :: real
  llm_target_tps :: int
  tts_timeout_seconds :: real

record Metrics =
  total_requests :: nat
  successful_requests :: nat
  failed_requests :: nat
  average_latency :: real
  asr_average :: real
  llm_average :: real
  tts_average :: real

text \<open>
  The \<open>VoicePipeline\<close> object with its collaborators. \<open>ipc_calls\<close> is the sequence
  of \<open>call_service\<close> invocations made so far and \<open>log_records\<close> the sequence of
  log calls (level and the fixed part of the message).
\<close>

record VoicePipeline =
  ready :: bool
  metrics :: Metrics
  latencies :: "real list"
  thermal_monitor :: ThermalMonitor
  database :: Database
  ipc_calls :: "(service \<times> string \<times> ipc_data) list"
  log_records :: "(log_level \<times> string) list"

text \<open>The call sites of \<open>time.time()\<close> in \<open>process_voice_input\<close>.\<close>

datatype tpoint =
    PipelineStart | AsrStart | AsrEnd | ContextStart | ContextEnd | LlmStart | LlmEnd
  | FuncStart | FuncEnd | UpdateStart | UpdateEnd | TtsStart | TtsEnd | PipelineEnd

datatype db_op = GetUserContext | AddMessage string | CreateReminder nat

text \<open>
  What the world outside the coordinator does during one request: the outcome of each
  transport call (a result dictionary, or the exception \<open>call_service\<close> raises: a
  timeout, a transport error or a worker error), the exception the store raises on an
  operation (\<open>CreateReminder i\<close> is the call made for the \<open>i\<close>-th function call), the
  order the engine gives to rows of equal timestamp, the timestamp a new row receives,
  the clock readings, \<open>round\<close> on floats and the value of \<open>uuid4()\<close>.
\<close>

record env =
  reply :: "service \<Rightarrow> error + ipc_result"
  db_fault :: "db_op \<Rightarrow> error option"
  tie :: "message_row \<Rightarrow> int"
  db_time :: "db_op \<Rightarrow> nat"
  now :: "tpoint \<Rightarrow> real"
  py_round :: "nat \<Rightarrow> real \<Rightarrow> real"
  fresh_uuid :: string

record result =
  success :: bool
  transcription :: string
  response_text :: string
  audio_url :: string
  function_calls :: "function_call list"
  timing :: "string \<rightharpoonup> real"
  session_id :: string

datatype outcome = Raised error | Returned result

definition add_log :: "log_level \<Rightarrow> string \<Rightarrow> VoicePipeline \<Rightarrow> VoicePipeline" where
  "add_log lvl msg p = p\<lparr>log_records := log_records p @ [(lvl, msg)]\<rparr>"

text \<open>
  \<open>IPCManager.call_service\<close> as the pipeline sees it: the call is issued, and it
  either returns the result dictionary or logs and raises.
\<close>

definition call_service ::
  "env \<Rightarrow> service \<Rightarrow> string \<Rightarrow> ipc_data \<Rightarrow> VoicePipeline \<Rightarrow> (error + ipc_result) \<times> VoicePipeline" where
  "call_service e svc method data p =
     (let p1 = p\<lparr>ipc_calls := ipc_calls p @ [(svc, method, data)]\<rparr>
      in case reply e svc of
           Inl err \<Rightarrow> (Inl err, add_log LError ''service call failed'' p1)
         | Inr r \<Rightarrow> (Inr r, p1))"

text \<open>
  Binding \<open>**func_args\<close> to the parameters of \<open>create_reminder\<close> after \<open>user_id\<close>:
  an unknown keyword (or one that names \<open>user_id\<close> again) and a missing \<open>title\<close> or
  \<open>due_date\<close> raise \<open>TypeError\<close>; \<open>description\<close> and \<open>recurring\<close> default to
  \<open>None\<close>.
\<close>

definition bind_kwargs :: "(string \<times> pyval) list \<Rightarrow> error + (pyval \<times> pyval \<times> pyval \<times> pyval)" where
  "bind_kwargs args =
     (if \<not> list_all (\<lambda>k. k \<in> set [''title'', ''due_date'', ''description'', ''recurring''])
            (map fst args)
      then Inl TypeError
      else case (map_of args ''title'', map_of args ''due_date'') of
             (Some title, Some due_date) \<Rightarrow>
               Inr (title, due_date,
                    (case map_of args ''description'' of None \<Rightarrow> PNone | Some v \<Rightarrow> v),
                    (case map_of args ''recurring'' of None \<Rightarrow> PNone | Some v \<Rightarrow> v))
           | _ \<Rightarrow> Inl TypeError)"

text \<open>
  One iteration of the loop of \<open>_execute_function_calls\<close>: the name cascade inside
  \<open>try\<close>, every exception caught and logged.
\<close>

definition execute_function_call :: "env \<Rightarrow> nat \<Rightarrow> function_call \<Rightarrow> string \<Rightarrow> VoicePipeline \<Rightarrow> VoicePipeline" where
  "execute_function_call e i func_call uid p =
     (let func_name = fc_name func_call;
          func_args = (case fc_arguments func_call of None \<Rightarrow> [] | Some a \<Rightarrow> a);
          p1 = add_log LInfo ''Executing function'' p
      in if func_name = Some ''set_reminder'' then
           (case bind_kwargs func_args of
              Inl err \<Rightarrow> add_log LError ''Function execution failed'' p1
            | Inr (title, due_date, description, recurring) \<Rightarrow>
                (case create_reminder (db_fault e (CreateReminder i)) (database p1) uid
                        title due_date description recurring of
                   Inl err \<Rightarrow> add_log LError ''Function execution failed'' p1
                 | Inr (reminder_id, db') \<Rightarrow>
                     add_log LInfo ''Created reminder'' (p1\<lparr>database := db'\<rparr>)))
         else if func_name = Some ''access_vault'' then
           add_log LInfo ''Vault access requested'' p1
         else if func_name = Some ''play_media'' then
           add_log LInfo ''Media playback requested'' p1
         else add_log LWarning ''Unknown function call'' p1)"

fun execute_function_calls :: "env \<Rightarrow> nat \<Rightarrow> function_call list \<Rightarrow> string \<Rightarrow> VoicePipeline \<Rightarrow> VoicePipeline" where
  "execute_function_calls e i [] uid p = p"
| "execute_function_calls e i (func_call # rest) uid p =
     execute_function_calls e (Suc i) rest uid (execute_function_call e i func_call uid p)"

text \<open>
  \<open>_update_metrics\<close>, in the order of the source: the two counters are incremented
  (\<open>count_request\<close>), \<open>timing["total"]\<close> is read and raises \<open>KeyError\<close> when the key
  is absent, then the latency window and the moving averages are updated
  (\<open>record_timing\<close>).
\<close>

definition ema :: "env \<Rightarrow> real \<Rightarrow> real \<Rightarrow> real" where
  "ema e old t = (if old = 0 then t else py_round e 3 (0.2 * t + (1 - 0.2) * old))"

definition count_request :: "VoicePipeline \<Rightarrow> VoicePipeline" where
  "count_request p =
     (let m1 = (metrics p)\<lparr>total_requests := total_requests (metrics p) + 1\<rparr>;
          m2 = m1\<lparr>successful_requests := successful_requests m1 + 1\<rparr>
      in p\<lparr>metrics := m2\<rparr>)"

definition record_timing :: "env \<Rightarrow> (string \<rightharpoonup> real) \<Rightarrow> real \<Rightarrow> VoicePipeline \<Rightarrow> VoicePipeline" where
  "record_timing e tm total_time p =
     (let lat0 = latencies p @ [total_time];
          lat = (if length lat0 > 100 then drop (length lat0 - 100) lat0 else lat0);
          m3 = (metrics p)\<lparr>average_latency :=
                  py_round e 3 (sum_list lat / real (length lat))\<rparr>;
          m4 = (case tm ''asr'' of None \<Rightarrow> m3
                | Some t \<Rightarrow> m3\<lparr>asr_average := ema e (asr_average m3) t\<rparr>);
          m5 = (case tm ''llm'' of None \<Rightarrow> m4
                | Some t \<Rightarrow> m4\<lparr>llm_average := ema e (llm_average m4) t\<rparr>);
          m6 = (case tm ''tts'' of None \<Rightarrow> m5
                | Some t \<Rightarrow> m5\<lparr>tts_average := ema e (tts_average m5) t\<rparr>)
      in p\<lparr>metrics := m6, latencies := lat\<rparr>)"

definition update_metrics :: "env \<Rightarrow> (string \<rightharpoonup> real) \<Rightarrow> VoicePipeline \<Rightarrow> error option \<times> VoicePipeline" where
  "update_metrics e tm p =
     (case tm ''total'' of
        None \<Rightarrow> (Some KeyError, count_request p)
      | Some total_time \<Rightarrow> (None, record_timing e tm total_time (count_request p)))"

text \<open>
  The body of the \<open>try\<close> block of \<open>process_voice_input\<close>, one definition per step
  of the source, last step first. Each returns the value of the body (the result
  dictionary, or the exception that leaves the block), the local dictionary \<open>timing\<close>
  as it stands when the body is left, and the pipeline.
\<close>

definition stage_tts ::
  "env \<Rightarrow> Settings \<Rightarrow> VoicePipeline \<Rightarrow> string \<Rightarrow> string \<Rightarrow> string \<Rightarrow> function_call list \<Rightarrow>
   (string \<rightharpoonup> real) \<Rightarrow> real \<Rightarrow> real \<Rightarrow> (error + result) \<times> (string \<rightharpoonup> real) \<times> VoicePipeline" where
  "stage_tts e cfg p sid tr resp calls tm asr_time llm_time =
     (case call_service e Tts ''synthesize'' (TtsData resp) (add_log LInfo ''Starting TTS'' p) of
        (Inl err, p2) \<Rightarrow> (Inl err, tm, p2)
      | (Inr tts_result, p2) \<Rightarrow>
          (let tts_time = now e TtsEnd - now e TtsStart;
               tm1 = tm(''tts'' \<mapsto> py_round e 3 tts_time);
               p3 = add_log LInfo ''TTS complete'' p2;
               p4 = (if tts_time > tts_timeout_seconds cfg
                     then add_log LWarning ''TTS exceeded target'' p3 else p3);
               total_time = now e PipelineEnd - now e PipelineStart;
               tm2 = tm1(''total'' \<mapsto> py_round e 3 total_time);
               tm3 = tm2(''orchestration_overhead'' \<mapsto>
                       py_round e 3 (total_time - (asr_time + llm_time + tts_time)))
           in case update_metrics e tm3 p4 of
                (Some err, p5) \<Rightarrow> (Inl err, tm3, p5)
              | (None, p5) \<Rightarrow>
                  (Inr \<lparr>success = True, transcription = tr, response_text = resp,
                        audio_url = ''/audio/'' @ sid, function_calls = calls,
                        timing = tm3, session_id = sid\<rparr>,
                   tm3, add_log LInfo ''Pipeline complete'' p5)))"

definition stage_context_update ::
  "env \<Rightarrow> Settings \<Rightarrow> VoicePipeline \<Rightarrow> string \<Rightarrow> string \<Rightarrow> string \<Rightarrow> string \<Rightarrow> function_call list \<Rightarrow>
   (string \<rightharpoonup> real) \<Rightarrow> real \<Rightarrow> real \<Rightarrow> (error + result) \<times> (string \<rightharpoonup> real) \<times> VoicePipeline" where
  "stage_context_update e cfg p uid sid tr resp calls tm asr_time llm_time =
     (case add_message (db_fault e (AddMessage ''user'')) (db_time e (AddMessage ''user''))
             (database p) uid ''user'' tr None of
        Inl err \<Rightarrow> (Inl err, tm, p)
      | Inr db1 \<Rightarrow>
          (case add_message (db_fault e (AddMessage ''assistant''))
                  (db_time e (AddMessage ''assistant'')) db1 uid ''assistant'' resp None of
             Inl err \<Rightarrow> (Inl err, tm, p\<lparr>database := db1\<rparr>)
           | Inr db2 \<Rightarrow>
               stage_tts e cfg (p\<lparr>database := db2\<rparr>) sid tr resp calls
                 (tm(''context_update'' \<mapsto> py_round e 3 (now e UpdateEnd - now e UpdateStart)))
                 asr_time llm_time))"

definition stage_functions ::
  "env \<Rightarrow> Settings \<Rightarrow> VoicePipeline \<Rightarrow> string \<Rightarrow> string \<Rightarrow> string \<Rightarrow> string \<Rightarrow> function_call list \<Rightarrow>
   (string \<rightharpoonup> real) \<Rightarrow> real \<Rightarrow> real \<Rightarrow> (error + result) \<times> (string \<rightharpoonup> real) \<times> VoicePipeline" where
  "stage_functions e cfg p uid sid tr resp calls tm asr_time llm_time =
     (if calls \<noteq> [] then
        stage_context_update e cfg
          (execute_function_calls e 0 calls uid (add_log LInfo ''Executing function calls'' p))
          uid sid tr resp calls
          (tm(''function_execution'' \<mapsto> py_round e 3 (now e FuncEnd - now e FuncStart)))
          asr_time llm_time
      else stage_context_update e cfg p uid sid tr resp calls tm asr_time llm_time)"

definition stage_llm ::
  "env \<Rightarrow> Settings \<Rightarrow> VoicePipeline \<Rightarrow> string \<Rightarrow> string \<Rightarrow> string \<Rightarrow> ctx_message list \<Rightarrow>
   (string \<rightharpoonup> real) \<Rightarrow> real \<Rightarrow> (error + result) \<times> (string \<rightharpoonup> real) \<times> VoicePipeline" where
  "stage_llm e cfg p uid sid tr user_context tm asr_time =
     (case call_service e Llm ''generate''
             (LlmData \<lparr>req_prompt = tr, req_context = user_context,
                       req_max_tokens = llm_max_tokens cfg, req_user_id = uid\<rparr>)
             (add_log LInfo ''Starting LLM inference'' p) of
        (Inl err, p2) \<Rightarrow> (Inl err, tm, p2)
      | (Inr llm_result, p2) \<Rightarrow>
          (let llm_time = now e LlmEnd - now e LlmStart;
               tm1 = tm(''llm'' \<mapsto> py_round e 3 llm_time);
               resp = (case res_text llm_result of None \<Rightarrow> [] | Some t \<Rightarrow> t);
               calls = (case res_function_calls llm_result of None \<Rightarrow> [] | Some c \<Rightarrow> c);
               tokens_generated = (case res_tokens llm_result of None \<Rightarrow> 0 | Some n \<Rightarrow> n)
           in if llm_time > 0 \<and> tokens_generated > 0 then
                (let tokens_per_second = real_of_int tokens_generated / llm_time;
                     tm2 = tm1(''llm_tokens_per_second'' \<mapsto> py_round e 2 tokens_per_second);
                     p3 = add_log LInfo ''LLM complete'' p2;
                     p4 = (if tokens_per_second < real_of_int (llm_target_tps cfg)
                           then add_log LWarning ''LLM below target throughput'' p3 else p3)
                 in stage_functions e cfg p4 uid sid tr resp calls tm2 asr_time llm_time)
              else stage_functions e cfg p2 uid sid tr resp calls tm1 asr_time llm_time))"

definition stage_context ::
  "env \<Rightarrow> Settings \<Rightarrow> VoicePipeline \<Rightarrow> string \<Rightarrow> string \<Rightarrow> string \<Rightarrow>
   (string \<rightharpoonup> real) \<Rightarrow> real \<Rightarrow> (error + result) \<times> (string \<rightharpoonup> real) \<times> VoicePipeline" where
  "stage_context e cfg p uid sid tr tm asr_time =
     (case get_user_context (db_fault e GetUserContext) (tie e) (database p) uid 10 of
        Inl err \<Rightarrow> (Inl err, tm, p)
      | Inr user_context \<Rightarrow>
          stage_llm e cfg p uid sid tr user_context
            (tm(''context_retrieval'' \<mapsto> py_round e 3 (now e ContextEnd - now e ContextStart)))
            asr_time)"

definition stage_asr ::
  "env \<Rightarrow> Settings \<Rightarrow> VoicePipeline \<Rightarrow> string \<Rightarrow> string \<Rightarrow> string \<Rightarrow>
   (error + result) \<times> (string \<rightharpoonup> real) \<times> VoicePipeline" where
  "stage_asr e cfg p audio_data uid sid =
     (case call_service e Asr ''transcribe'' (AsrData audio_data)
             (add_log LInfo ''Starting ASR'' p) of
        (Inl err, p2) \<Rightarrow> (Inl err, Map.empty, p2)
      | (Inr transcription_result, p2) \<Rightarrow>
          (let asr_time = now e AsrEnd - now e AsrStart;
               tm = [''asr'' \<mapsto> py_round e 3 asr_time];
               tr = (case res_text transcription_result of None \<Rightarrow> [] | Some t \<Rightarrow> t);
               p3 = add_log LInfo ''ASR complete'' p2;
               p4 = (if asr_time > asr_timeout_seconds cfg
                     then add_log LWarning ''ASR exceeded target'' p3 else p3)
           in stage_context e cfg p4 uid sid tr tm asr_time))"

text \<open>
  \<open>process_voice_input\<close>. \<open>pipeline_run\<close> is the part between the readiness check
  and the exception handler: the thermal check, the session id and the body of the
  \<open>try\<close>. The handler logs the error, counts the failure and raises the same
  exception again; the exception carries no timing dictionary.
\<close>

definition pipeline_run ::
  "env \<Rightarrow> Settings \<Rightarrow> VoicePipeline \<Rightarrow> string \<Rightarrow> string \<Rightarrow> string option \<Rightarrow>
   (error + result) \<times> (string \<rightharpoonup> real) \<times> VoicePipeline" where
  "pipeline_run e cfg p audio_data uid session =
     (let p1 = (if should_throttle (thermal_monitor p)
                then add_log LWarning ''System in thermal throttle mode'' p else p);
          sid = (case session of None \<Rightarrow> fresh_uuid e | Some s \<Rightarrow> s)
      in stage_asr e cfg p1 audio_data uid sid)"

definition process_voice_input ::
  "env \<Rightarrow> Settings \<Rightarrow> VoicePipeline \<Rightarrow> string \<Rightarrow> string \<Rightarrow> string option \<Rightarrow> outcome \<times> VoicePipeline" where
  "process_voice_input e cfg p audio_data uid session =
     (if \<not> ready p then (Raised (RuntimeError ''Pipeline not ready''), p)
      else
        (case pipeline_run e cfg p audio_data uid session of
           (Inl err, tm, p2) \<Rightarrow>
             (Raised err,
              (add_log LError ''Pipeline failed'' p2)
                \<lparr>metrics := (metrics p2)\<lparr>failed_requests := failed_requests (metrics p2) + 1\<rparr>\<rparr>)
         | (Inr res, tm, p2) \<Rightarrow> (Returned res, p2)))"

text \<open>The local dictionary \<open>timing\<close> at the moment the \<open>try\<close> block is left.\<close>

definition local_timing ::
  "env \<Rightarrow> Settings \<Rightarrow> VoicePipeline \<Rightarrow> string \<Rightarrow> string \<Rightarrow> string option \<Rightarrow> (string \<rightharpoonup> real)" where
  "local_timing e cfg p audio_data uid session =
     fst (snd (pipeline_run e cfg p audio_data uid session))"

text \<open>The timing dictionary a caller receives with an outcome.\<close>

definition emitted_timing :: "outcome \<Rightarrow> (string \<rightharpoonup> real) option" where
  "emitted_timing out = (case out of Raised err \<Rightarrow> None | Returned res \<Rightarrow> Some (timing res))"

definition is_raised :: "outcome \<Rightarrow> bool" where
  "is_raised out = (case out of Raised err \<Rightarrow> True | Returned res \<Rightarrow> False)"

text \<open>
  Observations on the pipeline: the transport calls made to the TTS service, and the
  number of function calls whose execution was started.
\<close>

definition tts_calls :: "VoicePipeline \<Rightarrow> (service \<times> string \<times> ipc_data) list" where
  "tts_calls p = filter (\<lambda>c. fst c = Tts) (ipc_calls p)"

definition executed_calls :: "VoicePipeline \<Rightarrow> nat" where
  "executed_calls p =
     length (filter (\<lambda>l. snd l = ''Executing function'') (log_records p))"

text \<open>
  A new pipeline (\<open>__init__\<close>) with all counters zero, and a sequence of voice
  requests served one after the other, each with its own environment.
\<close>

definition Metrics_init :: Metrics where
  "Metrics_init = \<lparr>total_requests = 0, successful_requests = 0, failed_requests = 0,
     average_latency = 0, asr_average = 0, llm_average = 0, tts_average = 0\<rparr>"

definition VoicePipeline_init :: "Database \<Rightarrow> ThermalMonitor \<Rightarrow> VoicePipeline" where
  "VoicePipeline_init db th =
     \<lparr>ready = False, metrics = Metrics_init, latencies = [], thermal_monitor = th,
      database = db, ipc_calls = [], log_records = []\<rparr>"

record request =
  rq_env :: env
  rq_audio :: string
  rq_user_id :: string
  rq_session_id :: "string option"

fun serve :: "Settings \<Rightarrow> VoicePipeline \<Rightarrow> request list \<Rightarrow> outcome list \<times> VoicePipeline" where
  "serve cfg p [] = ([], p)"
| "serve cfg p (rq # rqs) =
     (case process_voice_input (rq_env rq) cfg p (rq_audio rq) (rq_user_id rq) (rq_session_id rq) of
        (out, p') \<Rightarrow> (case serve cfg p' rqs of (outs, p'') \<Rightarrow> (out # outs, p'')))"

text \<open>
  How a stage leaves the counters, given the readiness flag \<open>b\<close> and the metrics
  \<open>m\<close> it started from.
\<close>

definition counted :: "bool \<Rightarrow> Metrics \<Rightarrow> (error + result) \<times> (string \<rightharpoonup> real) \<times> VoicePipeline \<Rightarrow> bool" where
  "counted b m r =
     (ready (snd (snd r)) = b \<and>
      (case fst r of
         Inl err \<Rightarrow> metrics (snd (snd r)) = m
       | Inr res \<Rightarrow>
           total_requests (metrics (snd (snd r))) = total_requests m + 1 \<and>
           successful_requests (metrics (snd (snd r))) = successful_requests m + 1 \<and>
           failed_requests (metrics (snd (snd r))) = failed_requests m))"

text \<open>Concrete inputs: a worker result, an environment in which nothing fails, the
  default settings and a ready pipeline over an empty store.\<close>

definition result0 :: ipc_result where
  "result0 = \<lparr>res_text = Some ''hello'', res_function_calls = None, res_tokens = None,
     res_audio_data = None\<rparr>"

definition env0 :: env where
  "env0 = \<lparr>reply = (\<lambda>svc. Inr result0), db_fault = (\<lambda>op. None),
     tie = (\<lambda>r. int (msg_id r)), db_time = (\<lambda>op. 0), now = (\<lambda>t. 0),
     py_round = (\<lambda>n x. x), fresh_uuid = ''session-1''\<rparr>"

definition env_asr_timeout :: env where
  "env_asr_timeout = env0\<lparr>reply := (\<lambda>svc. if svc = Asr then Inl TimeoutError else Inr result0)\<rparr>"

definition env_store_down :: env where
  "env_store_down =
     env0\<lparr>db_fault := (\<lambda>op. if op = AddMessage ''user'' then Some StoreError else None)\<rparr>"

definition cfg0 :: Settings where
  "cfg0 = \<lparr>asr_timeout_seconds = 2.5, llm_max_tokens = 150, llm_timeout_seconds = 7.5,
     llm_target_tps = 25, tts_timeout_seconds = 1.5\<rparr>"

definition pipeline0 :: VoicePipeline where
  "pipeline0 =
     (VoicePipeline_init \<lparr>messages = [], reminders = []\<rparr> (ThermalMonitor_init 75 85 70))
       \<lparr>ready := True\<rparr>"

section \<open>Properties of the thermal monitor\<close>

lemma state_update_state: "state (update_state m t) = next_state m t"
  by (simp add: update_state_def Let_def trigger_callbacks_def)

lemma thresholds_update_state:
  "warning_temp (update_state m t) = warning_temp m"
  "critical_temp (update_state m t) = critical_temp m"
  "cooldown_temp (update_state m t) = cooldown_temp m"
  by (simp_all add: update_state_def Let_def trigger_callbacks_def)

text \<open>
  C1 (as stated, refuted): from \<open>CRITICAL\<close> a reading below the warning threshold
  leaves the critical state without any call of \<open>trigger_cooldown\<close>: with the default
  thresholds 75/85/70 and a sample of 50 degrees the state becomes \<open>NORMAL\<close>.
\<close>

theorem critical_not_sticky:
  "state (update_state ((ThermalMonitor_init 75 85 70)\<lparr>state := CRITICAL\<rparr>) 50) = NORMAL"
  by (simp add: state_update_state next_state_def ThermalMonitor_init_def)

text \<open>
  C1 (amended): the transition table of \<open>_update_state\<close>. From \<open>COOLDOWN\<close> the state
  becomes \<open>NORMAL\<close> exactly when the reading is below the cooldown threshold and
  otherwise stays \<open>COOLDOWN\<close>. From every other state, \<open>CRITICAL\<close> included, the
  new state depends on the reading alone: \<open>CRITICAL\<close> at or above the critical
  threshold, \<open>WARNING\<close> in between, \<open>NORMAL\<close> below the warning threshold.
  \<open>trigger_cooldown\<close> enters \<open>COOLDOWN\<close> from any state.
\<close>

theorem update_state_table:
  assumes "warning_temp m < critical_temp m"
  shows "(state m = COOLDOWN \<longrightarrow>
           (state (update_state m t) = NORMAL \<longleftrightarrow> t < cooldown_temp m) \<and>
           (\<not> t < cooldown_temp m \<longrightarrow> state (update_state m t) = COOLDOWN)) \<and>
         (state m \<noteq> COOLDOWN \<longrightarrow>
           (t \<ge> critical_temp m \<longrightarrow> state (update_state m t) = CRITICAL) \<and>
           (warning_temp m \<le> t \<and> t < critical_temp m \<longrightarrow>
              state (update_state m t) = WARNING) \<and>
           (t < warning_temp m \<longrightarrow> state (update_state m t) = NORMAL)) \<and>
         state (trigger_cooldown m) = COOLDOWN"
  using assms
  by (auto simp add: state_update_state next_state_def trigger_cooldown_def
      trigger_callbacks_def)

theorem update_state_table_witness:
  "warning_temp ((ThermalMonitor_init 75 85 70)\<lparr>state := CRITICAL\<rparr>)
     < critical_temp ((ThermalMonitor_init 75 85 70)\<lparr>state := CRITICAL\<rparr>) \<and>
   state ((ThermalMonitor_init 75 85 70)\<lparr>state := CRITICAL\<rparr>) \<noteq> COOLDOWN \<and>
   (50::real) < warning_temp ((ThermalMonitor_init 75 85 70)\<lparr>state := CRITICAL\<rparr>) \<and>
   state (update_state ((ThermalMonitor_init 75 85 70)\<lparr>state := CRITICAL\<rparr>) 50) = NORMAL \<and>
   state (trigger_cooldown ((ThermalMonitor_init 75 85 70)\<lparr>state := CRITICAL\<rparr>)) = COOLDOWN"
proof -
  have h: "warning_temp ((ThermalMonitor_init 75 85 70)\<lparr>state := CRITICAL\<rparr>)
            < critical_temp ((ThermalMonitor_init 75 85 70)\<lparr>state := CRITICAL\<rparr>)"
    by (simp add: ThermalMonitor_init_def)
  show ?thesis
    using h update_state_table [OF h, of 50]
    by (simp add: ThermalMonitor_init_def)
qed


section \<open>Properties of the pipeline coordinator\<close>

subsection \<open>Fields untouched by the helpers\<close>

lemma add_log_fields [simp]:
  "ready (add_log l m p) = ready p"
  "metrics (add_log l m p) = metrics p"
  "latencies (add_log l m p) = latencies p"
  "thermal_monitor (add_log l m p) = thermal_monitor p"
  "database (add_log l m p) = database p"
  "ipc_calls (add_log l m p) = ipc_calls p"
  "log_records (add_log l m p) = log_records p @ [(l, m)]"
  by (simp_all add: add_log_def)

lemma call_service_Inl:
  "reply e svc = Inl err \<Longrightarrow>
   call_service e svc m d p =
     (Inl err, add_log LError ''service call failed'' (p\<lparr>ipc_calls := ipc_calls p @ [(svc, m, d)]\<rparr>))"
  by (simp add: call_service_def)

lemma call_service_Inr:
  "reply e svc = Inr r \<Longrightarrow>
   call_service e svc m d p = (Inr r, p\<lparr>ipc_calls := ipc_calls p @ [(svc, m, d)]\<rparr>)"
  by (simp add: call_service_def)

lemma execute_function_call_fields [simp]:
  "ready (execute_function_call e i fc uid p) = ready p"
  "metrics (execute_function_call e i fc uid p) = metrics p"
  "latencies (execute_function_call e i fc uid p) = latencies p"
  "thermal_monitor (execute_function_call e i fc uid p) = thermal_monitor p"
  "ipc_calls (execute_function_call e i fc uid p) = ipc_calls p"
  by (simp_all add: execute_function_call_def Let_def split: sum.splits prod.splits)

lemma create_reminder_messages:
  "create_reminder f db uid t d ds r = Inr (rid, db') \<Longrightarrow> messages db' = messages db"
  by (auto simp add: create_reminder_def Let_def split: pyval.splits if_splits option.splits)

lemma execute_function_call_messages [simp]:
  "messages (database (execute_function_call e i fc uid p)) = messages (database p)"
  by (auto simp add: execute_function_call_def Let_def create_reminder_messages split: sum.splits prod.splits)

lemma execute_function_calls_fields [simp]:
  "ready (execute_function_calls e i fcs uid p) = ready p"
  "metrics (execute_function_calls e i fcs uid p) = metrics p"
  "latencies (execute_function_calls e i fcs uid p) = latencies p"
  "thermal_monitor (execute_function_calls e i fcs uid p) = thermal_monitor p"
  "ipc_calls (execute_function_calls e i fcs uid p) = ipc_calls p"
  "messages (database (execute_function_calls e i fcs uid p)) = messages (database p)"
  by (induction fcs arbitrary: i p; simp)+

lemma count_request_fields [simp]:
  "ready (count_request p) = ready p"
  "database (count_request p) = database p"
  "ipc_calls (count_request p) = ipc_calls p"
  "log_records (count_request p) = log_records p"
  "total_requests (metrics (count_request p)) = total_requests (metrics p) + 1"
  "successful_requests (metrics (count_request p)) = successful_requests (metrics p) + 1"
  "failed_requests (metrics (count_request p)) = failed_requests (metrics p)"
  by (simp_all add: count_request_def Let_def)

lemma record_timing_fields [simp]:
  "ready (record_timing e tm t p) = ready p"
  "database (record_timing e tm t p) = database p"
  "ipc_calls (record_timing e tm t p) = ipc_calls p"
  "log_records (record_timing e tm t p) = log_records p"
  "total_requests (metrics (record_timing e tm t p)) = total_requests (metrics p)"
  "successful_requests (metrics (record_timing e tm t p)) = successful_requests (metrics p)"
  "failed_requests (metrics (record_timing e tm t p)) = failed_requests (metrics p)"
  by (simp_all add: record_timing_def Let_def split: option.splits)

lemma tts_calls_simps [simp]:
  "tts_calls (add_log l m p) = tts_calls p"
  "tts_calls (p\<lparr>database := db\<rparr>) = tts_calls p"
  "tts_calls (execute_function_calls e i fcs uid p) = tts_calls p"
  "tts_calls (q\<lparr>ipc_calls := ipc_calls p @ [(svc, m, d)]\<rparr>) =
     (if svc = Tts then tts_calls p @ [(svc, m, d)] else tts_calls p)"
  by (simp_all add: tts_calls_def)

lemma process_voice_input_raised:
  assumes "ready p" and "fst (pipeline_run e cfg p audio uid session) = Inl err"
  shows "process_voice_input e cfg p audio uid session =
           (Raised err,
            (add_log LError ''Pipeline failed'' (snd (snd (pipeline_run e cfg p audio uid session))))
              \<lparr>metrics := (metrics (snd (snd (pipeline_run e cfg p audio uid session))))
                 \<lparr>failed_requests :=
                    failed_requests (metrics (snd (snd (pipeline_run e cfg p audio uid session)))) + 1\<rparr>\<rparr>)"
proof (cases "pipeline_run e cfg p audio uid session")
  case (fields r tm p2)
  with assms show ?thesis by (simp add: process_voice_input_def)
qed

lemma process_voice_input_returned:
  assumes "ready p" and "fst (pipeline_run e cfg p audio uid session) = Inr res"
  shows "process_voice_input e cfg p audio uid session =
           (Returned res, snd (snd (pipeline_run e cfg p audio uid session)))"
proof (cases "pipeline_run e cfg p audio uid session")
  case (fields r tm p2)
  with assms show ?thesis by (simp add: process_voice_input_def)
qed

subsection \<open>Counters through the stages\<close>

lemma stage_tts_counted:
  "ready p = b \<Longrightarrow> metrics p = m \<Longrightarrow> counted b m (stage_tts e cfg p sid tr resp calls tm a l)"
  by (cases "reply e Tts")
     (simp_all add: counted_def stage_tts_def call_service_Inl call_service_Inr Let_def
        update_metrics_def)

lemma stage_context_update_counted:
  "ready p = b \<Longrightarrow> metrics p = m \<Longrightarrow>
   counted b m (stage_context_update e cfg p uid sid tr resp calls tm a l)"
  by (cases "db_fault e (AddMessage ''user'')"; cases "db_fault e (AddMessage ''assistant'')")
     (simp_all add: stage_context_update_def add_message_def stage_tts_counted, simp_all add: counted_def)

lemma stage_functions_counted:
  "ready p = b \<Longrightarrow> metrics p = m \<Longrightarrow>
   counted b m (stage_functions e cfg p uid sid tr resp calls tm a l)"
  by (simp add: stage_functions_def stage_context_update_counted)

lemma stage_llm_counted:
  "ready p = b \<Longrightarrow> metrics p = m \<Longrightarrow>
   counted b m (stage_llm e cfg p uid sid tr ctx tm a)"
  by (cases "reply e Llm")
     (simp_all add: stage_llm_def call_service_Inl call_service_Inr Let_def
        stage_functions_counted, simp_all add: counted_def)

lemma stage_context_counted:
  "ready p = b \<Longrightarrow> metrics p = m \<Longrightarrow>
   counted b m (stage_context e cfg p uid sid tr tm a)"
  by (cases "db_fault e GetUserContext")
     (simp_all add: stage_context_def get_user_context_def Let_def stage_llm_counted,
      simp_all add: counted_def)

lemma stage_asr_counted:
  "ready p = b \<Longrightarrow> metrics p = m \<Longrightarrow>
   counted b m (stage_asr e cfg p audio uid sid)"
  by (cases "reply e Asr")
     (simp_all add: stage_asr_def call_service_Inl call_service_Inr Let_def
        stage_context_counted, simp_all add: counted_def)

lemma pipeline_run_counted:
  "counted (ready p) (metrics p) (pipeline_run e cfg p audio uid session)"
  by (simp add: pipeline_run_def Let_def stage_asr_counted)


lemma process_voice_input_step:
  assumes "ready p"
  shows "ready (snd (process_voice_input e cfg p audio uid session)) \<and>
         (if is_raised (fst (process_voice_input e cfg p audio uid session))
          then total_requests (metrics (snd (process_voice_input e cfg p audio uid session)))
                 = total_requests (metrics p) \<and>
               successful_requests (metrics (snd (process_voice_input e cfg p audio uid session)))
                 = successful_requests (metrics p) \<and>
               failed_requests (metrics (snd (process_voice_input e cfg p audio uid session)))
                 = failed_requests (metrics p) + 1
          else total_requests (metrics (snd (process_voice_input e cfg p audio uid session)))
                 = total_requests (metrics p) + 1 \<and>
               successful_requests (metrics (snd (process_voice_input e cfg p audio uid session)))
                 = successful_requests (metrics p) + 1 \<and>
               failed_requests (metrics (snd (process_voice_input e cfg p audio uid session)))
                 = failed_requests (metrics p))"
proof (cases "fst (pipeline_run e cfg p audio uid session)")
  case (Inl err)
  with pipeline_run_counted [of p e cfg audio uid session] assms show ?thesis
    by (simp add: process_voice_input_raised [OF assms Inl] counted_def is_raised_def)
next
  case (Inr res)
  with pipeline_run_counted [of p e cfg audio uid session] assms show ?thesis
    by (simp add: process_voice_input_returned [OF assms Inr] counted_def is_raised_def)
qed

lemma serve_counters:
  assumes "ready p"
  shows "ready (snd (serve cfg p rqs)) \<and>
         total_requests (metrics (snd (serve cfg p rqs)))
           = total_requests (metrics p) + length (filter (\<lambda>out. \<not> is_raised out) (fst (serve cfg p rqs))) \<and>
         successful_requests (metrics (snd (serve cfg p rqs)))
           = successful_requests (metrics p) + length (filter (\<lambda>out. \<not> is_raised out) (fst (serve cfg p rqs))) \<and>
         failed_requests (metrics (snd (serve cfg p rqs)))
           = failed_requests (metrics p) + length (filter is_raised (fst (serve cfg p rqs)))"
  using assms
proof (induction rqs arbitrary: p)
  case Nil
  then show ?case by simp
next
  case (Cons rq rqs)
  let ?r = "process_voice_input (rq_env rq) cfg p (rq_audio rq) (rq_user_id rq) (rq_session_id rq)"
  have step: "ready (snd ?r)" and cnt:
    "(if is_raised (fst ?r)
      then total_requests (metrics (snd ?r)) = total_requests (metrics p) \<and>
           successful_requests (metrics (snd ?r)) = successful_requests (metrics p) \<and>
           failed_requests (metrics (snd ?r)) = failed_requests (metrics p) + 1
      else total_requests (metrics (snd ?r)) = total_requests (metrics p) + 1 \<and>
           successful_requests (metrics (snd ?r)) = successful_requests (metrics p) + 1 \<and>
           failed_requests (metrics (snd ?r)) = failed_requests (metrics p))"
    using process_voice_input_step [OF Cons.prems] by blast+
  from Cons.IH [OF step] cnt show ?case
    by (cases ?r; cases "serve cfg (snd ?r) rqs") (auto split: if_splits)
qed


text \<open>
  C10: \<open>total_requests\<close> is incremented only by \<open>_update_metrics\<close>, together with
  \<open>successful_requests\<close>, and a request that fails inside the \<open>try\<close> block
  increments only \<open>failed_requests\<close>. Hence, after any sequence of voice requests
  served by a ready pipeline started with all counters zero, \<open>total_requests\<close> equals
  \<open>successful_requests\<close>, which is the number of requests that returned;
  \<open>failed_requests\<close> is the number of requests that raised; and as soon as one
  request has failed \<open>total_requests\<close> differs from the sum of the other two.
\<close>

theorem total_requests_counts_successes:
  assumes "ready p" and "metrics p = Metrics_init"
  shows "total_requests (metrics (snd (serve cfg p rqs)))
           = successful_requests (metrics (snd (serve cfg p rqs))) \<and>
         successful_requests (metrics (snd (serve cfg p rqs)))
           = length (filter (\<lambda>out. \<not> is_raised out) (fst (serve cfg p rqs))) \<and>
         failed_requests (metrics (snd (serve cfg p rqs)))
           = length (filter is_raised (fst (serve cfg p rqs))) \<and>
         (filter is_raised (fst (serve cfg p rqs)) \<noteq> [] \<longrightarrow>
            total_requests (metrics (snd (serve cfg p rqs)))
              \<noteq> successful_requests (metrics (snd (serve cfg p rqs)))
                + failed_requests (metrics (snd (serve cfg p rqs))))"
  using serve_counters [OF assms(1), of cfg rqs] assms(2)
  by (simp add: Metrics_init_def)



subsection \<open>Failure of a stage\<close>

lemma executed_calls_simps [simp]:
  "executed_calls (add_log l m p) = executed_calls p + (if m = ''Executing function'' then 1 else 0)"
  "executed_calls (q\<lparr>ipc_calls := cs\<rparr>) = executed_calls q"
  "executed_calls (q\<lparr>database := db\<rparr>) = executed_calls q"
  by (simp_all add: executed_calls_def add_log_def)

lemma pipeline_run_asr_fail:
  assumes "reply e Asr = Inl err"
  shows "fst (pipeline_run e cfg p audio uid session) = Inl err"
    and "fst (snd (pipeline_run e cfg p audio uid session)) = Map.empty"
    and "database (snd (snd (pipeline_run e cfg p audio uid session))) = database p"
    and "tts_calls (snd (snd (pipeline_run e cfg p audio uid session))) = tts_calls p"
    and "executed_calls (snd (snd (pipeline_run e cfg p audio uid session))) = executed_calls p"
  by (simp_all add: pipeline_run_def stage_asr_def call_service_Inl [OF assms] Let_def)

lemma pipeline_run_llm_fail:
  assumes "reply e Asr = Inr r" and "db_fault e GetUserContext = None"
    and "reply e Llm = Inl err"
  shows "fst (pipeline_run e cfg p audio uid session) = Inl err"
    and "dom (fst (snd (pipeline_run e cfg p audio uid session))) = {''asr'', ''context_retrieval''}"
    and "database (snd (snd (pipeline_run e cfg p audio uid session))) = database p"
    and "tts_calls (snd (snd (pipeline_run e cfg p audio uid session))) = tts_calls p"
    and "executed_calls (snd (snd (pipeline_run e cfg p audio uid session))) = executed_calls p"
  by (simp_all add: pipeline_run_def stage_asr_def stage_context_def stage_llm_def
      get_user_context_def assms(2) call_service_Inr [OF assms(1)]
      call_service_Inl [OF assms(3)] Let_def insert_commute)

lemma raised_fields:
  assumes "ready p" and "fst (pipeline_run e cfg p audio uid session) = Inl err"
  shows "fst (process_voice_input e cfg p audio uid session) = Raised err"
    and "database (snd (process_voice_input e cfg p audio uid session))
           = database (snd (snd (pipeline_run e cfg p audio uid session)))"
    and "tts_calls (snd (process_voice_input e cfg p audio uid session))
           = tts_calls (snd (snd (pipeline_run e cfg p audio uid session)))"
    and "executed_calls (snd (process_voice_input e cfg p audio uid session))
           = executed_calls (snd (snd (pipeline_run e cfg p audio uid session)))"
    and "failed_requests (metrics (snd (process_voice_input e cfg p audio uid session)))
           = failed_requests (metrics (snd (snd (pipeline_run e cfg p audio uid session)))) + 1"
    and "last (log_records (snd (process_voice_input e cfg p audio uid session)))
           = (LError, ''Pipeline failed'')"
  by (simp_all add: process_voice_input_raised [OF assms] tts_calls_def executed_calls_def)

text \<open>
  C7: when the transport call of the ASR stage raises (timeout, transport error or
  worker error), or the ASR stage and the context fetch succeed and the call of the
  LLM stage raises, \<open>process_voice_input\<close> raises that same error, the store is
  unchanged (no turn appended, no reminder created), no function call is executed and
  no call to the TTS service is issued.
\<close>

theorem asr_or_llm_failure_leaves_context:
  assumes "ready p"
    and "reply e Asr = Inl err \<or>
         (\<exists>r. reply e Asr = Inr r \<and> db_fault e GetUserContext = None \<and> reply e Llm = Inl err)"
  shows "fst (process_voice_input e cfg p audio uid session) = Raised err \<and>
         database (snd (process_voice_input e cfg p audio uid session)) = database p \<and>
         executed_calls (snd (process_voice_input e cfg p audio uid session)) = executed_calls p \<and>
         tts_calls (snd (process_voice_input e cfg p audio uid session)) = tts_calls p"
  using assms(2)
proof
  assume a: "reply e Asr = Inl err"
  show ?thesis
    by (simp add: raised_fields [OF assms(1) pipeline_run_asr_fail(1) [OF a]]
        pipeline_run_asr_fail [OF a])
next
  assume "\<exists>r. reply e Asr = Inr r \<and> db_fault e GetUserContext = None \<and> reply e Llm = Inl err"
  then obtain r where a: "reply e Asr = Inr r" "db_fault e GetUserContext = None"
    "reply e Llm = Inl err"
    by blast
  show ?thesis
    by (simp add: raised_fields [OF assms(1) pipeline_run_llm_fail(1) [OF a]]
        pipeline_run_llm_fail [OF a])
qed

lemma pipeline0_ready: "ready pipeline0"
  by (simp add: pipeline0_def)

lemma env_asr_timeout_reply: "reply env_asr_timeout Asr = Inl TimeoutError"
  by (simp add: env_asr_timeout_def)

theorem asr_or_llm_failure_leaves_context_witness:
  "ready pipeline0 \<and> reply env_asr_timeout Asr = Inl TimeoutError \<and>
   fst (process_voice_input env_asr_timeout cfg0 pipeline0 ''audio'' ''alice'' None)
     = Raised TimeoutError \<and>
   database (snd (process_voice_input env_asr_timeout cfg0 pipeline0 ''audio'' ''alice'' None))
     = database pipeline0 \<and>
   tts_calls (snd (process_voice_input env_asr_timeout cfg0 pipeline0 ''audio'' ''alice'' None))
     = tts_calls pipeline0"
proof -
  have h: "reply env_asr_timeout Asr = Inl TimeoutError \<or>
         (\<exists>r. reply env_asr_timeout Asr = Inr r \<and> db_fault env_asr_timeout GetUserContext = None
            \<and> reply env_asr_timeout Llm = Inl TimeoutError)"
    by (simp add: env_asr_timeout_reply)
  show ?thesis
    using asr_or_llm_failure_leaves_context [OF pipeline0_ready h, of cfg0 "''audio''" "''alice''" None]
    by (simp add: pipeline0_ready env_asr_timeout_reply)
qed

lemma tts_calls_metrics [simp]:
  "tts_calls (count_request p) = tts_calls p"
  "tts_calls (record_timing e tm t p) = tts_calls p"
  by (simp_all add: tts_calls_def)

subsection \<open>The context append fails\<close>

lemma stage_context_update_fail:
  assumes "db_fault e (AddMessage ''user'') = Some err \<or>
         (db_fault e (AddMessage ''user'') = None \<and>
          db_fault e (AddMessage ''assistant'') = Some err)"
  shows "fst (stage_context_update e cfg p uid sid tr resp calls tm a l) = Inl err"
    and "fst (snd (stage_context_update e cfg p uid sid tr resp calls tm a l)) = tm"
    and "tts_calls (snd (snd (stage_context_update e cfg p uid sid tr resp calls tm a l))) = tts_calls p"
    and "metrics (snd (snd (stage_context_update e cfg p uid sid tr resp calls tm a l))) = metrics p"
  using assms
  by (auto simp add: stage_context_update_def add_message_def)

lemma stage_functions_fail:
  assumes "db_fault e (AddMessage ''user'') = Some err \<or>
         (db_fault e (AddMessage ''user'') = None \<and>
          db_fault e (AddMessage ''assistant'') = Some err)"
  shows "fst (stage_functions e cfg p uid sid tr resp calls tm a l) = Inl err"
    and "k \<in> dom tm \<Longrightarrow> k \<in> dom (fst (snd (stage_functions e cfg p uid sid tr resp calls tm a l)))"
    and "''total'' \<notin> dom tm \<Longrightarrow>
         ''total'' \<notin> dom (fst (snd (stage_functions e cfg p uid sid tr resp calls tm a l)))"
    and "tts_calls (snd (snd (stage_functions e cfg p uid sid tr resp calls tm a l))) = tts_calls p"
    and "metrics (snd (snd (stage_functions e cfg p uid sid tr resp calls tm a l))) = metrics p"
  by (simp_all add: stage_functions_def stage_context_update_fail [OF assms])

lemma stage_llm_fail:
  assumes "reply e Llm = Inr lr"
    and "db_fault e (AddMessage ''user'') = Some err \<or>
         (db_fault e (AddMessage ''user'') = None \<and>
          db_fault e (AddMessage ''assistant'') = Some err)"
  shows "fst (stage_llm e cfg p uid sid tr ctx tm a) = Inl err"
    and "k \<in> dom tm \<Longrightarrow> k \<in> dom (fst (snd (stage_llm e cfg p uid sid tr ctx tm a)))"
    and "''llm'' \<in> dom (fst (snd (stage_llm e cfg p uid sid tr ctx tm a)))"
    and "''total'' \<notin> dom tm \<Longrightarrow>
         ''total'' \<notin> dom (fst (snd (stage_llm e cfg p uid sid tr ctx tm a)))"
    and "tts_calls (snd (snd (stage_llm e cfg p uid sid tr ctx tm a))) = tts_calls p"
    and "metrics (snd (snd (stage_llm e cfg p uid sid tr ctx tm a))) = metrics p"
  by (simp_all add: stage_llm_def call_service_Inr [OF assms(1)] Let_def
      stage_functions_fail [OF assms(2)])

lemma pipeline_run_append_fail:
  assumes "reply e Asr = Inr ar" and "db_fault e GetUserContext = None"
    and "reply e Llm = Inr lr"
    and "db_fault e (AddMessage ''user'') = Some err \<or>
         (db_fault e (AddMessage ''user'') = None \<and>
          db_fault e (AddMessage ''assistant'') = Some err)"
  shows "fst (pipeline_run e cfg p audio uid session) = Inl err"
    and "''asr'' \<in> dom (fst (snd (pipeline_run e cfg p audio uid session)))"
    and "''context_retrieval'' \<in> dom (fst (snd (pipeline_run e cfg p audio uid session)))"
    and "''llm'' \<in> dom (fst (snd (pipeline_run e cfg p audio uid session)))"
    and "''total'' \<notin> dom (fst (snd (pipeline_run e cfg p audio uid session)))"
    and "tts_calls (snd (snd (pipeline_run e cfg p audio uid session))) = tts_calls p"
    and "metrics (snd (snd (pipeline_run e cfg p audio uid session))) = metrics p"
  by (simp_all add: pipeline_run_def stage_asr_def stage_context_def get_user_context_def
      call_service_Inr [OF assms(1)] assms(2) Let_def stage_llm_fail [OF assms(3,4)])

lemma env_store_down_facts:
  "reply env_store_down Asr = Inr result0"
  "db_fault env_store_down GetUserContext = None"
  "reply env_store_down Llm = Inr result0"
  "db_fault env_store_down (AddMessage ''user'') = Some StoreError"
  by (simp_all add: env_store_down_def env0_def)

lemma tts_calls_pipeline0: "tts_calls pipeline0 = []"
  by (simp add: pipeline0_def VoicePipeline_init_def tts_calls_def)

text \<open>
  C2 (as stated, refuted): when \<open>add_message\<close> for the user turn raises a store
  error, with every worker answering, the pipeline raises that error and no call to
  the TTS service is made: the caller receives a failure, not a response.
\<close>

theorem context_append_failure_skips_tts:
  "fst (process_voice_input env_store_down cfg0 pipeline0 ''audio'' ''alice'' None)
     = Raised StoreError \<and>
   tts_calls (snd (process_voice_input env_store_down cfg0 pipeline0 ''audio'' ''alice'' None)) = []"
proof -
  have h: "db_fault env_store_down (AddMessage ''user'') = Some StoreError \<or>
         (db_fault env_store_down (AddMessage ''user'') = None \<and>
          db_fault env_store_down (AddMessage ''assistant'') = Some StoreError)"
    by (simp add: env_store_down_facts)
  show ?thesis
    by (simp add: raised_fields [OF pipeline0_ready
          pipeline_run_append_fail(1) [OF env_store_down_facts(1-3) h]]
        pipeline_run_append_fail [OF env_store_down_facts(1-3) h] tts_calls_pipeline0)
qed

text \<open>
  C2 (amended): when the ASR stage, the context fetch and the LLM stage succeed and
  \<open>add_message\<close> raises a store error for the user turn, or for the assistant turn
  after the user turn was stored, the pipeline raises that error: no TTS call is
  issued, \<open>failed_requests\<close> is incremented and the failure is logged as an error
  (\<open>Pipeline failed\<close>).
\<close>

theorem context_append_failure_fails_pipeline:
  assumes "ready p"
    and "reply e Asr = Inr ar" and "db_fault e GetUserContext = None"
    and "reply e Llm = Inr lr"
    and "db_fault e (AddMessage ''user'') = Some err \<or>
         (db_fault e (AddMessage ''user'') = None \<and>
          db_fault e (AddMessage ''assistant'') = Some err)"
  shows "fst (process_voice_input e cfg p audio uid session) = Raised err \<and>
         tts_calls (snd (process_voice_input e cfg p audio uid session)) = tts_calls p \<and>
         failed_requests (metrics (snd (process_voice_input e cfg p audio uid session)))
           = failed_requests (metrics p) + 1 \<and>
         last (log_records (snd (process_voice_input e cfg p audio uid session)))
           = (LError, ''Pipeline failed'')"
  by (simp add: raised_fields [OF assms(1) pipeline_run_append_fail(1) [OF assms(2-5)]]
      pipeline_run_append_fail [OF assms(2-5)])

theorem context_append_failure_fails_pipeline_witness:
  "ready pipeline0 \<and> reply env_store_down Asr = Inr result0 \<and>
   db_fault env_store_down GetUserContext = None \<and> reply env_store_down Llm = Inr result0 \<and>
   db_fault env_store_down (AddMessage ''user'') = Some StoreError \<and>
   fst (process_voice_input env_store_down cfg0 pipeline0 ''audio'' ''alice'' None)
     = Raised StoreError \<and>
   failed_requests (metrics (snd (process_voice_input env_store_down cfg0 pipeline0
      ''audio'' ''alice'' None))) = 1"
proof -
  have h: "db_fault env_store_down (AddMessage ''user'') = Some StoreError \<or>
         (db_fault env_store_down (AddMessage ''user'') = None \<and>
          db_fault env_store_down (AddMessage ''assistant'') = Some StoreError)"
    by (simp add: env_store_down_facts)
  show ?thesis
    using context_append_failure_fails_pipeline [OF pipeline0_ready env_store_down_facts(1-3) h,
        of cfg0 "''audio''" "''alice''" None]
    by (simp add: pipeline0_ready env_store_down_facts)
       (simp add: pipeline0_def VoicePipeline_init_def Metrics_init_def)
qed

end
